theory Spec2Isabelle
  imports Complex_Main
begin

section \<open>The libvirt node driver (libcloud/compute/drivers/libvirt_driver.py)\<close>

text \<open>
  The driver is a shim between libcloud's generic node interface and the libvirt client
  library. The library is not part of the driver: its connection and domain objects are
  modelled as records of the responses their methods give, each response either a value
  or a raised exception (\<open>Inl\<close>). Every driver method returns the list of native calls it
  issued, in order, together with its own result or the exception it let through.
\<close>

subsection \<open>Values, exceptions and the native objects\<close>

text \<open>
  Modelled from the spec: \<open>NodeState\<close> (imported from libcloud.compute.base, whose
  source is not part of this module) is the generic enumeration the state table maps
  into.
\<close>

datatype NodeState = RUNNING | PENDING | TERMINATED | UNKNOWN

text \<open>
  \<open>RuntimeError\<close> is what the constructor raises itself; \<open>libvirtError\<close> stands for
  any exception raised inside a native call, identified by its message;
  \<open>OverflowError\<close> is what Python 3 raises when the quotient of two integers is too
  large for a float; \<open>NameError\<close> is what reading an unbound global name raises.
\<close>

datatype exn = RuntimeError string | libvirtError string | OverflowError | NameError string

text \<open>
  The module runs under Python 2 and under Python 3, which differ in what \<open>/\<close> does
  to two integers.
\<close>

datatype python = Python2 | Python3

text \<open>
  The values stored in a node's \<open>extra\<close> dictionary: strings, integers and floats.
  A float is the rational number that the (finite) double denotes.
\<close>

datatype pyval = PyStr string | PyInt int | PyFloat rat

text \<open>
  A native domain object: the response of each method the driver calls on it.
  \<open>info\<close> answers \<open>(state, max_mem, memory, vcpu_count, used_cpu_time)\<close>; the six
  commands answer an integer return code. The accessors are deterministic: asking
  twice gives the same answer.
\<close>

record virDomain =
  info :: "exn + (int \<times> int \<times> int \<times> int \<times> int)"
  UUIDString :: "exn + string"
  OSType :: "exn + string"
  ID :: "exn + int"
  name :: "exn + string"
  reboot :: "int \<Rightarrow> exn + int"
  destroy :: "exn + int"
  create :: "exn + int"
  shutdown :: "exn + int"
  suspend :: "exn + int"
  resume :: "exn + int"

text \<open>The connection object returned by \<open>libvirt.open\<close>.\<close>

record virConnect =
  listAllDomains :: "exn + virDomain list"
  getType :: "exn + string"
  lookupByUUIDString :: "string \<Rightarrow> exn + virDomain"

text \<open>The driver instance: \<open>self._uri\<close> and \<open>self.connection\<close>.\<close>

record LibvirtNodeDriver =
  uri :: string
  connection :: virConnect

text \<open>
  Modelled from the spec: \<open>Node\<close> (imported from libcloud.compute.base, whose source
  is not part of this module) is a container of its constructor arguments;
  \<open>priv_uuid\<close> is the attribute \<open>_uuid\<close>, which \<open>list_nodes\<close> assigns right after
  construction, and the attribute \<open>uuid\<close> reads the string stored there.
\<close>

record Node =
  node_id :: int
  node_name :: string
  node_state :: NodeState
  public_ips :: "string list"
  private_ips :: "string list"
  node_driver :: LibvirtNodeDriver
  extra :: "string \<rightharpoonup> pyval"
  priv_uuid :: string

definition uuid :: "Node \<Rightarrow> string" where
  "uuid node = priv_uuid node"

subsection \<open>Native calls and their trace\<close>

datatype call =
    libvirt_open string
  | conn_listAllDomains
  | conn_getType
  | conn_lookupByUUIDString string
  | domain_info virDomain
  | domain_UUIDString virDomain
  | domain_OSType virDomain
  | domain_ID virDomain
  | domain_name virDomain
  | domain_reboot virDomain int
  | domain_destroy virDomain
  | domain_create virDomain
  | domain_shutdown virDomain
  | domain_suspend virDomain
  | domain_resume virDomain

type_synonym 'a io = "call list \<times> (exn + 'a)"

definition return_io :: "'a \<Rightarrow> 'a io" where
  "return_io x = ([], Inr x)"

definition raise_io :: "exn \<Rightarrow> 'a io" where
  "raise_io e = ([], Inl e)"

text \<open>A computation of the driver's own, with no native call.\<close>

definition lift_io :: "exn + 'a \<Rightarrow> 'a io" where
  "lift_io r = ([], r)"

text \<open>One native call: it is recorded, and its response is the result.\<close>

definition native :: "call \<Rightarrow> exn + 'a \<Rightarrow> 'a io" where
  "native c r = ([c], r)"

text \<open>Sequencing: an exception ends the method, and nothing after it is called.\<close>

definition bind_io :: "'a io \<Rightarrow> ('a \<Rightarrow> 'b io) \<Rightarrow> 'b io" where
  "bind_io m f =
     (case m of
        (t, Inl e) \<Rightarrow> (t, Inl e)
      | (t, Inr x) \<Rightarrow> (case f x of (t', r) \<Rightarrow> (t @ t', r)))"

subsection \<open>The state table\<close>

definition NODE_STATE_MAP :: "int \<rightharpoonup> NodeState" where
  "NODE_STATE_MAP = map_of
     [(0, TERMINATED),
      (1, RUNNING),
      (2, PENDING),
      (3, TERMINATED),
      (4, TERMINATED),
      (5, TERMINATED),
      (6, UNKNOWN),
      (7, UNKNOWN)]"

text \<open>
  Lines 70 to 73 of \<open>list_nodes\<close>: the table's entry when the code is a key, and
  \<open>UNKNOWN\<close> otherwise.
\<close>

definition map_state :: "int \<Rightarrow> NodeState" where
  "map_state state =
     (case NODE_STATE_MAP state of Some s \<Rightarrow> s | None \<Rightarrow> UNKNOWN)"

subsection \<open>Division by 1024\<close>

text \<open>The number of bits of a natural number (Python's \<open>int.bit_length\<close>).\<close>

fun bit_length :: "nat \<Rightarrow> nat" where
  "bit_length n = (if n = 0 then 0 else Suc (bit_length (n div 2)))"

declare bit_length.simps [simp del]

text \<open>
  An integer rounded to 53 significant bits, ties to even: the integer that the nearest
  double (with no bound on the exponent) denotes.
\<close>

definition round_to_53_bits :: "int \<Rightarrow> int" where
  "round_to_53_bits a =
     (let k = bit_length (nat \<bar>a\<bar>) - 53;
          q = \<bar>a\<bar> div 2 ^ k;
          r = \<bar>a\<bar> mod 2 ^ k
      in sgn a * 2 ^ k * (if 2 ^ k < 2 * r \<or> (2 * r = 2 ^ k \<and> odd q) then q + 1 else q))"

text \<open>
  \<open>memory / 1024\<close> on an integer \<open>memory\<close>. The module has no \<open>__future__\<close> import,
  so under Python 2 this is floor division and gives an integer. Under Python 3 it is
  true division: the double nearest to the quotient, which is the dividend rounded to
  53 bits and scaled by the power of two, or \<open>OverflowError\<close> when that is not below
  \<open>2 ^ 1024\<close>.
\<close>

fun div_1024 :: "python \<Rightarrow> int \<Rightarrow> exn + pyval" where
  "div_1024 Python2 memory = Inr (PyInt (memory div 1024))"
| "div_1024 Python3 memory =
     (let n = round_to_53_bits memory
      in if 2 ^ 1034 \<le> \<bar>n\<bar> then Inl OverflowError else Inr (PyFloat (Fract n 1024)))"

declare div_1024.simps(2) [simp del]

subsection \<open>Construction\<close>

text \<open>
  Lines 20 to 24: \<open>import libvirt\<close> binds the name \<open>libvirt\<close> to the module, here
  its function \<open>open\<close>, or fails with \<open>ImportError\<close> and leaves the name unbound
  (\<open>None\<close>). \<open>have_libvirt\<close> records which.
\<close>

type_synonym libvirt_module = "string \<Rightarrow> exn + virConnect"

definition have_libvirt :: "libvirt_module option \<Rightarrow> bool" where
  "have_libvirt libvirt = (case libvirt of Some m \<Rightarrow> True | None \<Rightarrow> False)"

text \<open>\<open>__init__\<close>, given what the import left behind.\<close>

definition init :: "libvirt_module option \<Rightarrow> string \<Rightarrow> LibvirtNodeDriver io" where
  "init libvirt uri_arg =
     (if \<not> have_libvirt libvirt
      then raise_io (RuntimeError (''Libvirt driver requires 'libvirt' Python '' @ ''package''))
      else (case libvirt of
              None \<Rightarrow> raise_io (NameError ''libvirt'')
            | Some open_fn \<Rightarrow>
                bind_io (native (libvirt_open uri_arg) (open_fn uri_arg))
                  (\<lambda>c. return_io \<lparr>uri = uri_arg, connection = c\<rparr>)))"

subsection \<open>Inventory listing\<close>

text \<open>
  The body of the loop of \<open>list_nodes\<close> for one domain. The calls are made in the order
  Python evaluates them: \<open>info\<close>, then the values of the \<open>extra\<close> dictionary from left
  to right, then the arguments of \<open>Node\<close>, then \<open>UUIDString\<close> again for \<open>_uuid\<close>.
  \<open>memory / 1024\<close> is evaluated between \<open>getType\<close> and \<open>ID\<close>.
\<close>

definition node_for_domain :: "python \<Rightarrow> LibvirtNodeDriver \<Rightarrow> virDomain \<Rightarrow> Node io" where
  "node_for_domain py self domain =
     bind_io (native (domain_info domain) (info domain))
       (\<lambda>(state, max_mem, memory, vcpu_count, used_cpu_time).
     bind_io (native (domain_UUIDString domain) (UUIDString domain))
       (\<lambda>extra_uuid.
     bind_io (native (domain_OSType domain) (OSType domain))
       (\<lambda>os_type.
     bind_io (native conn_getType (getType (connection self)))
       (\<lambda>types.
     bind_io (lift_io (div_1024 py memory))
       (\<lambda>used_memory.
     bind_io (native (domain_ID domain) (ID domain))
       (\<lambda>dom_id.
     bind_io (native (domain_name domain) (name domain))
       (\<lambda>dom_name.
     bind_io (native (domain_UUIDString domain) (UUIDString domain))
       (\<lambda>custom_uuid.
     return_io
       \<lparr>node_id = dom_id,
        node_name = dom_name,
        node_state = map_state state,
        public_ips = [],
        private_ips = [],
        node_driver = self,
        extra = [''uuid'' \<mapsto> PyStr extra_uuid,
                 ''os_type'' \<mapsto> PyStr os_type,
                 ''types'' \<mapsto> PyStr types,
                 ''used_memory'' \<mapsto> used_memory,
                 ''vcpu_count'' \<mapsto> PyInt vcpu_count,
                 ''used_cpu_time'' \<mapsto> PyInt used_cpu_time],
        priv_uuid = custom_uuid\<rparr>))))))))"

text \<open>The loop: \<open>nodes\<close> is the list built so far, each new node appended at its end.\<close>

fun list_nodes_loop ::
  "python \<Rightarrow> LibvirtNodeDriver \<Rightarrow> virDomain list \<Rightarrow> Node list \<Rightarrow> Node list io" where
  "list_nodes_loop py self [] nodes = return_io nodes"
| "list_nodes_loop py self (domain # domains) nodes =
     bind_io (node_for_domain py self domain)
       (\<lambda>node. list_nodes_loop py self domains (nodes @ [node]))"

definition list_nodes :: "python \<Rightarrow> LibvirtNodeDriver \<Rightarrow> Node list io" where
  "list_nodes py self =
     bind_io (native conn_listAllDomains (listAllDomains (connection self)))
       (\<lambda>domains. list_nodes_loop py self domains [])"

subsection \<open>Mutating operations\<close>

definition get_domain_for_node :: "LibvirtNodeDriver \<Rightarrow> Node \<Rightarrow> virDomain io" where
  "get_domain_for_node self node =
     native (conn_lookupByUUIDString (uuid node))
       (lookupByUUIDString (connection self) (uuid node))"

definition reboot_node :: "LibvirtNodeDriver \<Rightarrow> Node \<Rightarrow> bool io" where
  "reboot_node self node =
     bind_io (get_domain_for_node self node) (\<lambda>domain.
     bind_io (native (domain_reboot domain 0) (reboot domain 0)) (\<lambda>rc.
     return_io (rc = 0)))"

definition destroy_node :: "LibvirtNodeDriver \<Rightarrow> Node \<Rightarrow> bool io" where
  "destroy_node self node =
     bind_io (get_domain_for_node self node) (\<lambda>domain.
     bind_io (native (domain_destroy domain) (destroy domain)) (\<lambda>rc.
     return_io (rc = 0)))"

definition ex_start_node :: "LibvirtNodeDriver \<Rightarrow> Node \<Rightarrow> bool io" where
  "ex_start_node self node =
     bind_io (get_domain_for_node self node) (\<lambda>domain.
     bind_io (native (domain_create domain) (create domain)) (\<lambda>rc.
     return_io (rc = 0)))"

definition ex_shutdown_node :: "LibvirtNodeDriver \<Rightarrow> Node \<Rightarrow> bool io" where
  "ex_shutdown_node self node =
     bind_io (get_domain_for_node self node) (\<lambda>domain.
     bind_io (native (domain_shutdown domain) (shutdown domain)) (\<lambda>rc.
     return_io (rc = 0)))"

definition ex_suspend_node :: "LibvirtNodeDriver \<Rightarrow> Node \<Rightarrow> bool io" where
  "ex_suspend_node self node =
     bind_io (get_domain_for_node self node) (\<lambda>domain.
     bind_io (native (domain_suspend domain) (suspend domain)) (\<lambda>rc.
     return_io (rc = 0)))"

definition ex_resume_node :: "LibvirtNodeDriver \<Rightarrow> Node \<Rightarrow> bool io" where
  "ex_resume_node self node =
     bind_io (get_domain_for_node self node) (\<lambda>domain.
     bind_io (native (domain_resume domain) (resume domain)) (\<lambda>rc.
     return_io (rc = 0)))"

text \<open>
  The six operations under one name, with the native command each one issues on the
  resolved domain, so that a property can be stated for all of them at once.
\<close>

datatype mutating_op = Reboot | Destroy | Start | Shutdown | Suspend | Resume

fun run_op :: "mutating_op \<Rightarrow> LibvirtNodeDriver \<Rightarrow> Node \<Rightarrow> bool io" where
  "run_op Reboot = reboot_node"
| "run_op Destroy = destroy_node"
| "run_op Start = ex_start_node"
| "run_op Shutdown = ex_shutdown_node"
| "run_op Suspend = ex_suspend_node"
| "run_op Resume = ex_resume_node"

fun native_command :: "mutating_op \<Rightarrow> virDomain \<Rightarrow> call" where
  "native_command Reboot d = domain_reboot d 0"
| "native_command Destroy d = domain_destroy d"
| "native_command Start d = domain_create d"
| "native_command Shutdown d = domain_shutdown d"
| "native_command Suspend d = domain_suspend d"
| "native_command Resume d = domain_resume d"

fun return_code :: "mutating_op \<Rightarrow> virDomain \<Rightarrow> exn + int" where
  "return_code Reboot d = reboot d 0"
| "return_code Destroy d = destroy d"
| "return_code Start d = create d"
| "return_code Shutdown d = shutdown d"
| "return_code Suspend d = suspend d"
| "return_code Resume d = resume d"

subsection \<open>When a listing goes through\<close>

text \<open>
  Every call that \<open>list_nodes\<close> makes for the domain answers with a value, and the
  division of its memory figure does not overflow.
\<close>

definition answers :: "python \<Rightarrow> virConnect \<Rightarrow> virDomain \<Rightarrow> bool" where
  "answers py c d \<longleftrightarrow>
     (case info d of
        Inl e \<Rightarrow> False
      | Inr (state, max_mem, memory, vcpu_count, used_cpu_time) \<Rightarrow>
          \<not> isl (UUIDString d) \<and> \<not> isl (OSType d) \<and> \<not> isl (getType c) \<and>
          \<not> isl (div_1024 py memory) \<and> \<not> isl (ID d) \<and> \<not> isl (name d))"

subsection \<open>A sample hypervisor\<close>

text \<open>
  Two domains, one running and one shut off, a third whose \<open>info\<close> call fails, and
  connections that report them. The properties below are run on these.
\<close>

definition web_uuid :: string where
  "web_uuid = ''c7a5fdbd-edaf-9455-926a-d65c16db1809''"

definition db_uuid :: string where
  "db_uuid = ''4dea22b3-1d52-d8f3-2516-782e98ab3fa0''"

definition vm_web :: virDomain where
  "vm_web =
     \<lparr>info = Inr (1, 4194304, 2097152, 2, 7000000000),
      UUIDString = Inr web_uuid,
      OSType = Inr ''hvm'',
      ID = Inr 1,
      name = Inr ''web'',
      reboot = (\<lambda>flags. Inr 0),
      destroy = Inr 0,
      create = Inr (- 1),
      shutdown = Inr 0,
      suspend = Inr 0,
      resume = Inr (- 1)\<rparr>"

definition vm_db :: virDomain where
  "vm_db =
     \<lparr>info = Inr (5, 1048576, 1000, 1, 0),
      UUIDString = Inr db_uuid,
      OSType = Inr ''hvm'',
      ID = Inr (- 1),
      name = Inr ''db'',
      reboot = (\<lambda>flags. Inl (libvirtError ''domain is not running'')),
      destroy = Inr (- 1),
      create = Inr 0,
      shutdown = Inr (- 1),
      suspend = Inr (- 1),
      resume = Inr (- 1)\<rparr>"

definition vm_gone :: virDomain where
  "vm_gone =
     \<lparr>info = Inl (libvirtError ''Domain not found''),
      UUIDString = Inr ''0f3c9a51-7b0e-4d7e-8f57-3a2b6c1d9e44'',
      OSType = Inr ''hvm'',
      ID = Inr (- 1),
      name = Inr ''gone'',
      reboot = (\<lambda>flags. Inr (- 1)),
      destroy = Inr (- 1),
      create = Inr (- 1),
      shutdown = Inr (- 1),
      suspend = Inr (- 1),
      resume = Inr (- 1)\<rparr>"

definition sample_lookup :: "string \<Rightarrow> exn + virDomain" where
  "sample_lookup u =
     (if u = web_uuid then Inr vm_web
      else if u = db_uuid then Inr vm_db
      else Inl (libvirtError ''Domain not found''))"

definition sample_connection :: virConnect where
  "sample_connection =
     \<lparr>listAllDomains = Inr [vm_web, vm_db],
      getType = Inr ''QEMU'',
      lookupByUUIDString = sample_lookup\<rparr>"

definition sample_driver :: LibvirtNodeDriver where
  "sample_driver = \<lparr>uri = ''qemu:///system'', connection = sample_connection\<rparr>"

definition racy_connection :: virConnect where
  "racy_connection =
     \<lparr>listAllDomains = Inr [vm_web, vm_gone, vm_db],
      getType = Inr ''QEMU'',
      lookupByUUIDString = sample_lookup\<rparr>"

definition racy_driver :: LibvirtNodeDriver where
  "racy_driver = \<lparr>uri = ''qemu:///system'', connection = racy_connection\<rparr>"

text \<open>The nodes that listing the sample connection gives, under either Python.\<close>

definition node_web :: "python \<Rightarrow> Node" where
  "node_web py =
     \<lparr>node_id = 1,
      node_name = ''web'',
      node_state = RUNNING,
      public_ips = [],
      private_ips = [],
      node_driver = sample_driver,
      extra = [''uuid'' \<mapsto> PyStr web_uuid,
               ''os_type'' \<mapsto> PyStr ''hvm'',
               ''types'' \<mapsto> PyStr ''QEMU'',
               ''used_memory'' \<mapsto> (case py of Python2 \<Rightarrow> PyInt 2048 | Python3 \<Rightarrow> PyFloat 2048),
               ''vcpu_count'' \<mapsto> PyInt 2,
               ''used_cpu_time'' \<mapsto> PyInt 7000000000],
      priv_uuid = web_uuid\<rparr>"

definition node_db :: "python \<Rightarrow> Node" where
  "node_db py =
     \<lparr>node_id = - 1,
      node_name = ''db'',
      node_state = TERMINATED,
      public_ips = [],
      private_ips = [],
      node_driver = sample_driver,
      extra = [''uuid'' \<mapsto> PyStr db_uuid,
               ''os_type'' \<mapsto> PyStr ''hvm'',
               ''types'' \<mapsto> PyStr ''QEMU'',
               ''used_memory'' \<mapsto> (case py of Python2 \<Rightarrow> PyInt 0 | Python3 \<Rightarrow> PyFloat (125 / 128)),
               ''vcpu_count'' \<mapsto> PyInt 1,
               ''used_cpu_time'' \<mapsto> PyInt 0],
      priv_uuid = db_uuid\<rparr>"

text \<open>A node that carries nothing of a listing but a uuid.\<close>

definition bare_node :: "string \<Rightarrow> Node" where
  "bare_node u =
     \<lparr>node_id = 0,
      node_name = [],
      node_state = UNKNOWN,
      public_ips = [],
      private_ips = [],
      node_driver = sample_driver,
      extra = Map.empty,
      priv_uuid = u\<rparr>"

section \<open>Properties\<close>

subsection \<open>Sequencing\<close>

lemma bind_io_Inl [simp]: "bind_io (t, Inl e) f = (t, Inl e)"
  by (simp add: bind_io_def)

lemma bind_io_Inr [simp]: "bind_io (t, Inr x) f = (t @ fst (f x), snd (f x))"
  by (simp add: bind_io_def split: prod.splits)

lemma snd_bind_io_Inr:
  "snd (bind_io m f) = Inr y \<longleftrightarrow> (\<exists>x. snd m = Inr x \<and> snd (f x) = Inr y)"
  by (cases m; cases "snd m") (auto simp: bind_io_def split: prod.splits sum.splits)

lemma snd_bind_io_Inl:
  "snd (bind_io m f) = Inl e \<longleftrightarrow> snd m = Inl e \<or> (\<exists>x. snd m = Inr x \<and> snd (f x) = Inl e)"
  by (cases m; cases "snd m") (auto simp: bind_io_def split: prod.splits sum.splits)

lemma snd_native [simp]: "snd (native c r) = r"
  by (simp add: native_def)

lemma fst_native [simp]: "fst (native c r) = [c]"
  by (simp add: native_def)

lemma snd_lift_io [simp]: "snd (lift_io r) = r"
  by (simp add: lift_io_def)

lemma fst_lift_io [simp]: "fst (lift_io r) = []"
  by (simp add: lift_io_def)

lemma snd_return_io [simp]: "snd (return_io x) = Inr x"
  by (simp add: return_io_def)

lemma fst_return_io [simp]: "fst (return_io x) = []"
  by (simp add: return_io_def)

lemma not_isl_iff: "\<not> isl x \<longleftrightarrow> (\<exists>y. x = Inr y)"
  by (cases x) simp_all

subsection \<open>State table\<close>

text \<open>
  C1. The state mapping used by \<open>list_nodes\<close> is exactly the fixed table: 0 gives
  TERMINATED, 1 RUNNING, 2 PENDING, 3, 4 and 5 TERMINATED, 6 and 7 UNKNOWN, and every
  integer code outside 0 to 7 gives UNKNOWN.
\<close>

theorem map_state_table:
  "map_state 0 = TERMINATED \<and> map_state 1 = RUNNING \<and> map_state 2 = PENDING \<and>
   map_state 3 = TERMINATED \<and> map_state 4 = TERMINATED \<and> map_state 5 = TERMINATED \<and>
   map_state 6 = UNKNOWN \<and> map_state 7 = UNKNOWN \<and>
   (c < 0 \<or> 7 < c \<longrightarrow> map_state c = UNKNOWN)"
  by (auto simp: map_state_def NODE_STATE_MAP_def)

text \<open>The codes 8 and -1 lie outside the table.\<close>

theorem map_state_table_witness:
  "((8::int) < 0 \<or> 7 < (8::int)) \<and> map_state 8 = UNKNOWN \<and>
   ((- 1::int) < 0 \<or> 7 < (- 1::int)) \<and> map_state (- 1) = UNKNOWN"
  using map_state_table [of 8] map_state_table [of "- 1"] by simp

subsection \<open>Mutating operations\<close>

lemma get_domain_for_node_Inr:
  "lookupByUUIDString (connection self) (uuid node) = Inr d \<Longrightarrow>
   get_domain_for_node self node = ([conn_lookupByUUIDString (uuid node)], Inr d)"
  by (simp add: get_domain_for_node_def native_def)

lemma get_domain_for_node_Inl:
  "lookupByUUIDString (connection self) (uuid node) = Inl e \<Longrightarrow>
   get_domain_for_node self node = ([conn_lookupByUUIDString (uuid node)], Inl e)"
  by (simp add: get_domain_for_node_def native_def)

lemmas mutating_defs =
  reboot_node_def destroy_node_def ex_start_node_def ex_shutdown_node_def
  ex_suspend_node_def ex_resume_node_def

lemmas sample_defs =
  sample_driver_def sample_connection_def sample_lookup_def bare_node_def uuid_def
  web_uuid_def db_uuid_def

text \<open>
  C2. For each of the six mutating operations: when the UUID lookup succeeds and the
  native command returns an integer code, the operation returns true if and only if the
  code is 0, false for every other code, and raises nothing. It issues the lookup and
  then the one command, and nothing else.
\<close>

theorem mutating_op_true_iff_return_code_zero:
  assumes "lookupByUUIDString (connection self) (uuid node) = Inr d"
    and "return_code op d = Inr rc"
  shows "run_op op self node =
           ([conn_lookupByUUIDString (uuid node), native_command op d], Inr (rc = 0))"
  using assms
  by (cases op) (simp_all add: mutating_defs get_domain_for_node_Inr native_def return_io_def)

text \<open>
  On the sample hypervisor, rebooting the running domain returns code 0 and starting
  it returns code -1.
\<close>

theorem mutating_op_true_iff_return_code_zero_witness:
  "lookupByUUIDString (connection sample_driver) (uuid (bare_node web_uuid)) = Inr vm_web \<and>
   return_code Reboot vm_web = Inr 0 \<and>
   run_op Reboot sample_driver (bare_node web_uuid) =
     ([conn_lookupByUUIDString web_uuid, domain_reboot vm_web 0], Inr True) \<and>
   return_code Start vm_web = Inr (- 1) \<and>
   run_op Start sample_driver (bare_node web_uuid) =
     ([conn_lookupByUUIDString web_uuid, domain_create vm_web], Inr False)"
proof -
  have look: "lookupByUUIDString (connection sample_driver) (uuid (bare_node web_uuid)) =
      Inr vm_web"
    by (simp add: sample_defs)
  have rc0: "return_code Reboot vm_web = Inr 0"
    by (simp add: vm_web_def)
  have rc1: "return_code Start vm_web = Inr (- 1)"
    by (simp add: vm_web_def)
  have u: "uuid (bare_node web_uuid) = web_uuid"
    by (simp add: bare_node_def uuid_def)
  from mutating_op_true_iff_return_code_zero [OF look rc0]
    mutating_op_true_iff_return_code_zero [OF look rc1] look rc0 rc1
  show ?thesis
    by (simp add: u)
qed

text \<open>
  C4. For a node whose uuid the connection does not resolve, each of the six mutating
  operations fails with the very exception the lookup raised, after the lookup and
  before any command; it does not return false.
\<close>

theorem mutating_op_propagates_lookup_error:
  assumes "lookupByUUIDString (connection self) (uuid node) = Inl e"
  shows "run_op op self node = ([conn_lookupByUUIDString (uuid node)], Inl e) \<and>
         snd (run_op op self node) \<noteq> Inr False"
  using assms
  by (cases op) (simp_all add: mutating_defs get_domain_for_node_Inl)

text \<open>Destroying a node whose uuid the sample connection does not know.\<close>

theorem mutating_op_propagates_lookup_error_witness:
  "lookupByUUIDString (connection sample_driver) (uuid (bare_node ''no-such-uuid'')) =
     Inl (libvirtError ''Domain not found'') \<and>
   run_op Destroy sample_driver (bare_node ''no-such-uuid'') =
     ([conn_lookupByUUIDString ''no-such-uuid''], Inl (libvirtError ''Domain not found'')) \<and>
   snd (run_op Destroy sample_driver (bare_node ''no-such-uuid'')) \<noteq> Inr False"
proof -
  have look: "lookupByUUIDString (connection sample_driver) (uuid (bare_node ''no-such-uuid'')) =
      Inl (libvirtError ''Domain not found'')"
    by (simp add: sample_defs)
  have u: "uuid (bare_node ''no-such-uuid'') = ''no-such-uuid''"
    by (simp add: bare_node_def uuid_def)
  from mutating_op_propagates_lookup_error [OF look, of Destroy] look
  show ?thesis
    by (simp add: u)
qed

text \<open>
  C10. Each of the six mutating operations depends on its node argument through the
  uuid only: for two nodes with the same uuid it issues the same native calls and
  returns the same result, whatever their other fields.
\<close>

theorem mutating_op_depends_only_on_uuid:
  assumes "uuid node1 = uuid node2"
  shows "run_op op self node1 = run_op op self node2"
  using assms
  by (cases op) (simp_all add: mutating_defs get_domain_for_node_def)

text \<open>
  The node that a listing gives for the running domain, and a node that shares nothing
  with it but the uuid.
\<close>

theorem mutating_op_depends_only_on_uuid_witness:
  "uuid (node_web Python2) = uuid (bare_node web_uuid) \<and>
   node_web Python2 \<noteq> bare_node web_uuid \<and>
   run_op Shutdown sample_driver (node_web Python2) =
     run_op Shutdown sample_driver (bare_node web_uuid)"
proof -
  have u: "uuid (node_web Python2) = uuid (bare_node web_uuid)"
    by (simp add: node_web_def bare_node_def uuid_def)
  have "node_id (node_web Python2) \<noteq> node_id (bare_node web_uuid)"
    by (simp add: node_web_def bare_node_def)
  then have ne: "node_web Python2 \<noteq> bare_node web_uuid"
    by auto
  from mutating_op_depends_only_on_uuid [OF u, of Shutdown sample_driver] u ne
  show ?thesis
    by (intro conjI)
qed

subsection \<open>Construction\<close>

text \<open>
  C5. When the libvirt library is unavailable, constructing the driver with any URI
  fails at once with \<open>RuntimeError\<close> and no connection is opened. When it is available,
  construction opens exactly one connection, to the given URI; an exception of the
  open call comes out as it is, and otherwise the driver holds the URI and the
  connection.
\<close>

theorem init_requires_libvirt:
  "(libvirt = None \<longrightarrow>
      init libvirt u =
        ([], Inl (RuntimeError ''Libvirt driver requires 'libvirt' Python package''))) \<and>
   (libvirt = Some open_fn \<longrightarrow>
      fst (init libvirt u) = [libvirt_open u] \<and>
      (\<forall>e. open_fn u = Inl e \<longrightarrow> snd (init libvirt u) = Inl e) \<and>
      (\<forall>c. open_fn u = Inr c \<longrightarrow>
           snd (init libvirt u) = Inr \<lparr>uri = u, connection = c\<rparr>))"
  by (cases "open_fn u")
    (simp_all add: init_def have_libvirt_def raise_io_def native_def return_io_def)

text \<open>
  Without the library; with a library whose \<open>open\<close> gives the sample connection; with a
  library whose \<open>open\<close> fails.
\<close>

theorem init_requires_libvirt_witness:
  "init None ''qemu:///system'' =
     ([], Inl (RuntimeError ''Libvirt driver requires 'libvirt' Python package'')) \<and>
   init (Some (\<lambda>u. Inr sample_connection)) ''qemu:///system'' =
     ([libvirt_open ''qemu:///system''], Inr sample_driver) \<and>
   init (Some (\<lambda>u. Inl (libvirtError ''no connection driver available''))) ''nope://'' =
     ([libvirt_open ''nope://''], Inl (libvirtError ''no connection driver available''))"
  using init_requires_libvirt [where libvirt = None and u = "''qemu:///system''"]
    init_requires_libvirt [where libvirt = "Some (\<lambda>u. Inr sample_connection)"
      and open_fn = "\<lambda>u. Inr sample_connection" and u = "''qemu:///system''"]
    init_requires_libvirt
      [where libvirt = "Some (\<lambda>u. Inl (libvirtError ''no connection driver available''))"
      and open_fn = "\<lambda>u. Inl (libvirtError ''no connection driver available'')"
      and u = "''nope://''"]
  by (simp add: prod_eq_iff sample_driver_def)

subsection \<open>Division by 1024\<close>

lemma bit_length_le: "n < 2 ^ k \<Longrightarrow> bit_length n \<le> k"
proof (induction k arbitrary: n)
  case 0
  then show ?case by (simp add: bit_length.simps)
next
  case (Suc k)
  show ?case
  proof (cases "n = 0")
    case True
    then show ?thesis by (simp add: bit_length.simps)
  next
    case False
    from Suc.prems have "n div 2 < 2 ^ k" by simp
    then have "bit_length (n div 2) \<le> k" by (rule Suc.IH)
    with False show ?thesis by (subst bit_length.simps) simp
  qed
qed

text \<open>An integer of at most 53 bits is a double as it stands.\<close>

lemma round_to_53_bits_small:
  assumes "\<bar>a\<bar> < 2 ^ 53"
  shows "round_to_53_bits a = a"
proof -
  from assms have "nat \<bar>a\<bar> < 2 ^ 53"
    by (simp add: nat_less_iff)
  then have "bit_length (nat \<bar>a\<bar>) \<le> 53"
    by (rule bit_length_le)
  then have "bit_length (nat \<bar>a\<bar>) - 53 = 0"
    by simp
  then show ?thesis
    by (simp add: round_to_53_bits_def Let_def mult_sgn_abs)
qed

lemma div_1024_Python3_exact:
  assumes "\<bar>m\<bar> < 2 ^ 53"
  shows "div_1024 Python3 m = Inr (PyFloat (rat_of_int m / 1024))"
proof -
  have "(2::int) ^ 53 < 2 ^ 1034"
    by (rule power_strict_increasing) simp_all
  with assms have "\<not> 2 ^ 1034 \<le> \<bar>m\<bar>" by linarith
  with assms show ?thesis
    by (simp add: div_1024.simps(2) round_to_53_bits_small Let_def Fract_of_int_quotient)
qed

lemma div_1024_raises:
  assumes "div_1024 py memory = Inl e"
  shows "py = Python3 \<and> e = OverflowError"
  using assms by (cases py) (simp_all add: div_1024.simps(2) Let_def split: if_splits)

subsection \<open>One domain of a listing\<close>

lemma node_for_domain_returns_iff:
  "snd (node_for_domain py self d) = Inr n \<longleftrightarrow>
     (\<exists>state max_mem memory vcpu_count used_cpu_time u os ty um i nm.
        info d = Inr (state, max_mem, memory, vcpu_count, used_cpu_time) \<and>
        UUIDString d = Inr u \<and> OSType d = Inr os \<and>
        getType (connection self) = Inr ty \<and> div_1024 py memory = Inr um \<and>
        ID d = Inr i \<and> name d = Inr nm \<and>
        n = \<lparr>node_id = i, node_name = nm, node_state = map_state state,
             public_ips = [], private_ips = [], node_driver = self,
             extra = [''uuid'' \<mapsto> PyStr u, ''os_type'' \<mapsto> PyStr os,
                      ''types'' \<mapsto> PyStr ty, ''used_memory'' \<mapsto> um,
                      ''vcpu_count'' \<mapsto> PyInt vcpu_count,
                      ''used_cpu_time'' \<mapsto> PyInt used_cpu_time],
             priv_uuid = u\<rparr>)"
  unfolding node_for_domain_def
  by (auto simp: snd_bind_io_Inr split: prod.splits)

lemma node_for_domain_raises_iff:
  "snd (node_for_domain py self d) = Inl e \<longleftrightarrow>
     info d = Inl e \<or>
     (\<exists>state max_mem memory vcpu_count used_cpu_time.
        info d = Inr (state, max_mem, memory, vcpu_count, used_cpu_time) \<and>
        (UUIDString d = Inl e \<or>
         (\<exists>u. UUIDString d = Inr u \<and>
            (OSType d = Inl e \<or>
             (\<exists>os. OSType d = Inr os \<and>
                (getType (connection self) = Inl e \<or>
                 (\<exists>ty. getType (connection self) = Inr ty \<and>
                    (div_1024 py memory = Inl e \<or>
                     (\<exists>um. div_1024 py memory = Inr um \<and>
                        (ID d = Inl e \<or>
                         (\<exists>i. ID d = Inr i \<and> name d = Inl e)))))))))))"
  unfolding node_for_domain_def
  by (auto simp: snd_bind_io_Inl split: prod.splits)

lemma answers_iff_returns:
  "answers py (connection self) d \<longleftrightarrow> (\<exists>n. snd (node_for_domain py self d) = Inr n)"
  unfolding node_for_domain_returns_iff answers_def not_isl_iff
  by (cases "info d") (auto split: prod.splits)

lemma native_failure_raises:
  assumes "info d = Inl e \<or> UUIDString d = Inl e \<or> OSType d = Inl e \<or>
           getType (connection self) = Inl e \<or> ID d = Inl e \<or> name d = Inl e"
  shows "\<exists>e'. snd (node_for_domain py self d) = Inl e'"
proof (cases "snd (node_for_domain py self d)")
  case (Inl e')
  then show ?thesis by blast
next
  case (Inr n)
  with assms show ?thesis
    by (auto simp: node_for_domain_returns_iff)
qed

lemma node_for_domain_raised_by:
  assumes "snd (node_for_domain py self d) = Inl e"
  shows "info d = Inl e \<or> UUIDString d = Inl e \<or> OSType d = Inl e \<or>
         getType (connection self) = Inl e \<or> ID d = Inl e \<or> name d = Inl e \<or>
         (py = Python3 \<and> e = OverflowError)"
  using assms div_1024_raises [of py _ e]
  unfolding node_for_domain_raises_iff by blast

subsection \<open>The loop of the listing\<close>

lemma list_nodes_loop_returns_iff:
  "snd (list_nodes_loop py self ds acc) = Inr ns \<longleftrightarrow>
     (\<exists>ms. ns = acc @ ms \<and>
        list_all2 (\<lambda>d n. snd (node_for_domain py self d) = Inr n) ds ms)"
proof (induction ds arbitrary: acc)
  case Nil
  then show ?case by auto
next
  case (Cons d ds)
  show ?case
    by (auto simp: snd_bind_io_Inr Cons.IH list_all2_Cons1)
qed

lemma list_nodes_returns_iff:
  "snd (list_nodes py self) = Inr ns \<longleftrightarrow>
     (\<exists>ds. listAllDomains (connection self) = Inr ds \<and>
        list_all2 (\<lambda>d n. snd (node_for_domain py self d) = Inr n) ds ns)"
  by (simp add: list_nodes_def snd_bind_io_Inr list_nodes_loop_returns_iff)

text \<open>
  The listing stops at the first domain whose processing raises: the calls made are
  those for the domains up to and including it, and its exception is the result.
\<close>

lemma list_nodes_loop_raises_at:
  assumes "\<forall>p\<in>set pre. \<exists>n. snd (node_for_domain py self p) = Inr n"
    and "snd (node_for_domain py self d) = Inl e"
  shows "list_nodes_loop py self (pre @ d # post) acc =
           (concat (map (\<lambda>p. fst (node_for_domain py self p)) (pre @ [d])), Inl e)"
  using assms(1)
proof (induction pre arbitrary: acc)
  case Nil
  from assms(2) show ?case
    by (cases "node_for_domain py self d") simp
next
  case (Cons p pre)
  then obtain n where n: "snd (node_for_domain py self p) = Inr n" by auto
  from Cons have IH: "list_nodes_loop py self (pre @ d # post) (acc @ [n]) =
           (concat (map (\<lambda>p. fst (node_for_domain py self p)) (pre @ [d])), Inl e)"
    by simp
  from n IH show ?case
    by (cases "node_for_domain py self p") simp
qed

text \<open>When every domain answers, the listing returns.\<close>

lemma list_nodes_returns:
  assumes "listAllDomains (connection self) = Inr ds"
    and "\<forall>d\<in>set ds. answers py (connection self) d"
  shows "\<exists>ns. snd (list_nodes py self) = Inr ns"
proof -
  from assms(2) have "\<forall>d\<in>set ds. \<exists>n. snd (node_for_domain py self d) = Inr n"
    by (simp add: answers_iff_returns)
  then have "\<exists>ns. list_all2 (\<lambda>d n. snd (node_for_domain py self d) = Inr n) ds ns"
  proof (induction ds)
    case Nil
    then show ?case by simp
  next
    case (Cons d ds)
    then obtain n ns where "snd (node_for_domain py self d) = Inr n"
      and "list_all2 (\<lambda>d n. snd (node_for_domain py self d) = Inr n) ds ns"
      by auto
    then have "list_all2 (\<lambda>d n. snd (node_for_domain py self d) = Inr n) (d # ds) (n # ns)"
      by simp
    then show ?case ..
  qed
  with assms(1) show ?thesis
    by (auto simp: list_nodes_returns_iff)
qed

lemma list_nodes_nth:
  assumes "listAllDomains (connection self) = Inr ds"
    and "snd (list_nodes py self) = Inr ns"
  shows "length ns = length ds"
    and "i < length ds \<Longrightarrow> snd (node_for_domain py self (ds ! i)) = Inr (ns ! i)"
  using assms by (auto simp: list_nodes_returns_iff list_all2_conv_all_nth)

subsection \<open>The sample hypervisor, listed\<close>

lemma sample_listAllDomains:
  "listAllDomains (connection sample_driver) = Inr [vm_web, vm_db]"
  by (simp add: sample_driver_def sample_connection_def)

lemma div_1024_samples:
  "div_1024 Python2 2097152 = Inr (PyInt 2048)"
  "div_1024 Python3 2097152 = Inr (PyFloat 2048)"
  "div_1024 Python2 1000 = Inr (PyInt 0)"
  "div_1024 Python3 1000 = Inr (PyFloat (125 / 128))"
  by (simp_all add: div_1024_Python3_exact)

lemma node_for_domain_vm_web:
  "snd (node_for_domain py sample_driver vm_web) = Inr (node_web py)"
  unfolding node_for_domain_returns_iff
  by (cases py)
    (simp_all add: vm_web_def node_web_def sample_driver_def sample_connection_def
      map_state_def NODE_STATE_MAP_def div_1024_samples)

lemma node_for_domain_vm_db:
  "snd (node_for_domain py sample_driver vm_db) = Inr (node_db py)"
  unfolding node_for_domain_returns_iff
  by (cases py)
    (simp_all add: vm_db_def node_db_def sample_driver_def sample_connection_def
      map_state_def NODE_STATE_MAP_def div_1024_samples)

lemma sample_answers:
  "answers py (connection sample_driver) vm_web"
  "answers py (connection sample_driver) vm_db"
  unfolding answers_iff_returns
  using node_for_domain_vm_web node_for_domain_vm_db by blast+

lemma list_nodes_sample:
  "snd (list_nodes py sample_driver) = Inr [node_web py, node_db py]"
  unfolding list_nodes_returns_iff
  by (simp add: sample_listAllDomains node_for_domain_vm_web node_for_domain_vm_db)

subsection \<open>Inventory listing\<close>

text \<open>
  C9. \<open>list_nodes\<close> keeps the order of the domains that \<open>listAllDomains\<close> reported:
  the returned list is as long as the reported one, and its i-th node is the node built
  from the i-th domain, with that domain's id, name and UUID string.
\<close>

theorem list_nodes_preserves_order:
  assumes "listAllDomains (connection self) = Inr ds"
    and "snd (list_nodes py self) = Inr ns"
  shows "length ns = length ds \<and>
         (\<forall>i<length ds.
            snd (node_for_domain py self (ds ! i)) = Inr (ns ! i) \<and>
            ID (ds ! i) = Inr (node_id (ns ! i)) \<and>
            name (ds ! i) = Inr (node_name (ns ! i)) \<and>
            UUIDString (ds ! i) = Inr (uuid (ns ! i)))"
proof -
  have "snd (node_for_domain py self (ds ! i)) = Inr (ns ! i)" if "i < length ds" for i
    using list_nodes_nth(2) [OF assms that] .
  moreover have "ID d = Inr (node_id n) \<and> name d = Inr (node_name n) \<and>
      UUIDString d = Inr (uuid n)"
    if "snd (node_for_domain py self d) = Inr n" for d n
    using that by (auto simp: node_for_domain_returns_iff uuid_def)
  ultimately show ?thesis
    using list_nodes_nth(1) [OF assms] by blast
qed

text \<open>The sample connection reports the running domain first and the other second.\<close>

theorem list_nodes_preserves_order_witness:
  "listAllDomains (connection sample_driver) = Inr [vm_web, vm_db] \<and>
   snd (list_nodes Python3 sample_driver) = Inr [node_web Python3, node_db Python3] \<and>
   length [node_web Python3, node_db Python3] = length [vm_web, vm_db] \<and>
   snd (node_for_domain Python3 sample_driver vm_web) = Inr (node_web Python3) \<and>
   ID vm_web = Inr (node_id (node_web Python3)) \<and>
   name vm_web = Inr (node_name (node_web Python3)) \<and>
   UUIDString vm_web = Inr (uuid (node_web Python3)) \<and>
   snd (node_for_domain Python3 sample_driver vm_db) = Inr (node_db Python3) \<and>
   ID vm_db = Inr (node_id (node_db Python3)) \<and>
   name vm_db = Inr (node_name (node_db Python3)) \<and>
   UUIDString vm_db = Inr (uuid (node_db Python3))"
proof -
  note order = list_nodes_preserves_order
    [OF sample_listAllDomains list_nodes_sample [of Python3]]
  from order have len: "length [node_web Python3, node_db Python3] = length [vm_web, vm_db]" ..
  from order have "\<forall>i<length [vm_web, vm_db].
      snd (node_for_domain Python3 sample_driver ([vm_web, vm_db] ! i)) =
        Inr ([node_web Python3, node_db Python3] ! i) \<and>
      ID ([vm_web, vm_db] ! i) = Inr (node_id ([node_web Python3, node_db Python3] ! i)) \<and>
      name ([vm_web, vm_db] ! i) = Inr (node_name ([node_web Python3, node_db Python3] ! i)) \<and>
      UUIDString ([vm_web, vm_db] ! i) = Inr (uuid ([node_web Python3, node_db Python3] ! i))" ..
  then have first: "snd (node_for_domain Python3 sample_driver vm_web) = Inr (node_web Python3) \<and>
      ID vm_web = Inr (node_id (node_web Python3)) \<and>
      name vm_web = Inr (node_name (node_web Python3)) \<and>
      UUIDString vm_web = Inr (uuid (node_web Python3))"
    and second: "snd (node_for_domain Python3 sample_driver vm_db) = Inr (node_db Python3) \<and>
      ID vm_db = Inr (node_id (node_db Python3)) \<and>
      name vm_db = Inr (node_name (node_db Python3)) \<and>
      UUIDString vm_db = Inr (uuid (node_db Python3))"
    by (simp_all add: less_Suc_eq)
  from sample_listAllDomains list_nodes_sample [of Python3] len first second
  show ?thesis
    by blast
qed

text \<open>
  C3. When every reported domain answers, \<open>list_nodes\<close> returns exactly one node per
  domain, and each node's uuid is the UUID string of its domain. Hence, on a connection
  whose lookup resolves the UUID string of each reported domain to that domain, looking
  a returned node up again gives the domain it was built from.
\<close>

theorem list_nodes_uuid_round_trip:
  assumes "listAllDomains (connection self) = Inr ds"
    and "\<forall>d\<in>set ds. answers py (connection self) d"
  shows "\<exists>ns. snd (list_nodes py self) = Inr ns \<and> length ns = length ds \<and>
           (\<forall>i<length ds. UUIDString (ds ! i) = Inr (uuid (ns ! i))) \<and>
           ((\<forall>d\<in>set ds. \<forall>u. UUIDString d = Inr u \<longrightarrow>
                 lookupByUUIDString (connection self) u = Inr d) \<longrightarrow>
            (\<forall>i<length ds. snd (get_domain_for_node self (ns ! i)) = Inr (ds ! i)))"
proof -
  from list_nodes_returns [OF assms] obtain ns where ns: "snd (list_nodes py self) = Inr ns" ..
  have len: "length ns = length ds"
    using list_nodes_nth(1) [OF assms(1) ns] .
  have uu: "UUIDString (ds ! i) = Inr (uuid (ns ! i))" if "i < length ds" for i
    using list_nodes_nth(2) [OF assms(1) ns that]
    by (auto simp: node_for_domain_returns_iff uuid_def)
  have "snd (get_domain_for_node self (ns ! i)) = Inr (ds ! i)"
    if "i < length ds"
      and "\<forall>d\<in>set ds. \<forall>u. UUIDString d = Inr u \<longrightarrow>
             lookupByUUIDString (connection self) u = Inr d" for i
  proof -
    from that(1) have "ds ! i \<in> set ds" by simp
    with that(2) uu [OF that(1)]
    have "lookupByUUIDString (connection self) (uuid (ns ! i)) = Inr (ds ! i)" by blast
    then show ?thesis by (simp add: get_domain_for_node_def)
  qed
  with ns len uu show ?thesis by blast
qed

text \<open>
  The sample connection resolves the UUID strings of its two domains, so both nodes of
  its listing lead back to their domains.
\<close>

theorem list_nodes_uuid_round_trip_witness:
  "listAllDomains (connection sample_driver) = Inr [vm_web, vm_db] \<and>
   answers Python2 (connection sample_driver) vm_web \<and>
   answers Python2 (connection sample_driver) vm_db \<and>
   UUIDString vm_web = Inr web_uuid \<and>
   lookupByUUIDString (connection sample_driver) web_uuid = Inr vm_web \<and>
   UUIDString vm_db = Inr db_uuid \<and>
   lookupByUUIDString (connection sample_driver) db_uuid = Inr vm_db \<and>
   snd (list_nodes Python2 sample_driver) = Inr [node_web Python2, node_db Python2] \<and>
   uuid (node_web Python2) = web_uuid \<and> uuid (node_db Python2) = db_uuid \<and>
   snd (get_domain_for_node sample_driver (node_web Python2)) = Inr vm_web \<and>
   snd (get_domain_for_node sample_driver (node_db Python2)) = Inr vm_db"
proof -
  have ans: "\<forall>d\<in>set [vm_web, vm_db]. answers Python2 (connection sample_driver) d"
    by (simp add: sample_answers)
  have u1: "UUIDString vm_web = Inr web_uuid" and u2: "UUIDString vm_db = Inr db_uuid"
    by (simp_all add: vm_web_def vm_db_def)
  have l1: "lookupByUUIDString (connection sample_driver) web_uuid = Inr vm_web"
    and l2: "lookupByUUIDString (connection sample_driver) db_uuid = Inr vm_db"
    by (simp_all add: sample_defs)
  from u1 u2 l1 l2 have look: "\<forall>d\<in>set [vm_web, vm_db]. \<forall>u. UUIDString d = Inr u \<longrightarrow>
      lookupByUUIDString (connection sample_driver) u = Inr d"
    by simp
  have uuids: "uuid (node_web Python2) = web_uuid \<and> uuid (node_db Python2) = db_uuid"
    by (simp add: uuid_def node_web_def node_db_def)
  from list_nodes_uuid_round_trip [OF sample_listAllDomains ans] look
  obtain ns where ns: "snd (list_nodes Python2 sample_driver) = Inr ns"
    and rt: "\<forall>i<length [vm_web, vm_db].
      snd (get_domain_for_node sample_driver (ns ! i)) = Inr ([vm_web, vm_db] ! i)"
    by blast
  from ns have ns_eq: "ns = [node_web Python2, node_db Python2]"
    by (simp add: list_nodes_sample)
  from rt have "snd (get_domain_for_node sample_driver (ns ! 0)) = Inr vm_web"
    and "snd (get_domain_for_node sample_driver (ns ! 1)) = Inr vm_db"
    by auto
  with ns_eq have "snd (get_domain_for_node sample_driver (node_web Python2)) = Inr vm_web"
    and "snd (get_domain_for_node sample_driver (node_db Python2)) = Inr vm_db"
    by simp_all
  with sample_listAllDomains sample_answers(1) [of Python2] sample_answers(2) [of Python2]
    u1 l1 u2 l2 list_nodes_sample [of Python2] uuids
  show ?thesis
    by blast
qed

text \<open>
  C6. For a domain whose info tuple reports current memory \<open>m\<close>, the node that
  \<open>list_nodes\<close> returns for it has \<open>extra['used_memory']\<close> equal to \<open>m / 1024\<close> as Python
  computes it: the floor of the quotient under Python 2, the float nearest to the
  quotient under Python 3, which is the quotient itself when \<open>m\<close> is below \<open>2 ^ 53\<close>
  in magnitude. \<open>extra\<close> also carries the domain's uuid and os type, the connection's
  hypervisor type, the vcpu count and the used cpu time, and no other key.
\<close>

theorem list_nodes_extra_used_memory:
  assumes "listAllDomains (connection self) = Inr ds"
    and "snd (list_nodes py self) = Inr ns"
    and "i < length ds"
    and "info (ds ! i) = Inr (state, max_mem, m, vcpu_count, used_cpu_time)"
  shows "(py = Python2 \<longrightarrow> extra (ns ! i) ''used_memory'' = Some (PyInt (m div 1024))) \<and>
         (py = Python3 \<longrightarrow>
            extra (ns ! i) ''used_memory'' =
              Some (PyFloat (rat_of_int (round_to_53_bits m) / 1024))) \<and>
         (py = Python3 \<and> \<bar>m\<bar> < 2 ^ 53 \<longrightarrow>
            extra (ns ! i) ''used_memory'' = Some (PyFloat (rat_of_int m / 1024))) \<and>
         (\<exists>u os ty.
            UUIDString (ds ! i) = Inr u \<and> OSType (ds ! i) = Inr os \<and>
            getType (connection self) = Inr ty \<and>
            extra (ns ! i) ''uuid'' = Some (PyStr u) \<and>
            extra (ns ! i) ''os_type'' = Some (PyStr os) \<and>
            extra (ns ! i) ''types'' = Some (PyStr ty)) \<and>
         extra (ns ! i) ''vcpu_count'' = Some (PyInt vcpu_count) \<and>
         extra (ns ! i) ''used_cpu_time'' = Some (PyInt used_cpu_time) \<and>
         dom (extra (ns ! i)) =
           {''uuid'', ''os_type'', ''types'', ''used_memory'', ''vcpu_count'', ''used_cpu_time''}"
proof -
  from list_nodes_nth(2) [OF assms(1,2,3)] assms(4)
  obtain u os ty um i' nm where
    u: "UUIDString (ds ! i) = Inr u" and os: "OSType (ds ! i) = Inr os" and
    ty: "getType (connection self) = Inr ty" and um: "div_1024 py m = Inr um" and
    n: "ns ! i = \<lparr>node_id = i', node_name = nm, node_state = map_state state,
             public_ips = [], private_ips = [], node_driver = self,
             extra = [''uuid'' \<mapsto> PyStr u, ''os_type'' \<mapsto> PyStr os,
                      ''types'' \<mapsto> PyStr ty, ''used_memory'' \<mapsto> um,
                      ''vcpu_count'' \<mapsto> PyInt vcpu_count,
                      ''used_cpu_time'' \<mapsto> PyInt used_cpu_time],
             priv_uuid = u\<rparr>"
    by (auto simp: node_for_domain_returns_iff)
  have mem: "extra (ns ! i) ''used_memory'' = Some um"
    by (simp add: n)
  have py2: "um = PyInt (m div 1024)" if "py = Python2"
    using um that by simp
  have py3: "um = PyFloat (rat_of_int (round_to_53_bits m) / 1024)" if "py = Python3"
    using um that
    by (simp add: div_1024.simps(2) Let_def Fract_of_int_quotient split: if_splits)
  have py3_exact: "um = PyFloat (rat_of_int m / 1024)" if "py = Python3" "\<bar>m\<bar> < 2 ^ 53"
    using py3 [OF that(1)] that(2) by (simp add: round_to_53_bits_small)
  have strs: "extra (ns ! i) ''uuid'' = Some (PyStr u) \<and>
      extra (ns ! i) ''os_type'' = Some (PyStr os) \<and>
      extra (ns ! i) ''types'' = Some (PyStr ty)"
    by (simp add: n)
  have ints: "extra (ns ! i) ''vcpu_count'' = Some (PyInt vcpu_count) \<and>
      extra (ns ! i) ''used_cpu_time'' = Some (PyInt used_cpu_time)"
    by (simp add: n)
  have keys: "dom (extra (ns ! i)) =
      {''uuid'', ''os_type'', ''types'', ''used_memory'', ''vcpu_count'', ''used_cpu_time''}"
    by (simp add: n insert_commute)
  from u os ty strs have strs': "\<exists>u os ty.
      UUIDString (ds ! i) = Inr u \<and> OSType (ds ! i) = Inr os \<and>
      getType (connection self) = Inr ty \<and>
      extra (ns ! i) ''uuid'' = Some (PyStr u) \<and>
      extra (ns ! i) ''os_type'' = Some (PyStr os) \<and>
      extra (ns ! i) ''types'' = Some (PyStr ty)"
    by blast
  from mem py2 have m2: "py = Python2 \<longrightarrow>
      extra (ns ! i) ''used_memory'' = Some (PyInt (m div 1024))"
    by simp
  from mem py3 have m3: "py = Python3 \<longrightarrow>
      extra (ns ! i) ''used_memory'' =
        Some (PyFloat (rat_of_int (round_to_53_bits m) / 1024))"
    by simp
  from mem py3_exact have m3': "py = Python3 \<and> \<bar>m\<bar> < 2 ^ 53 \<longrightarrow>
      extra (ns ! i) ''used_memory'' = Some (PyFloat (rat_of_int m / 1024))"
    by simp
  from ints have vc: "extra (ns ! i) ''vcpu_count'' = Some (PyInt vcpu_count)" ..
  from ints have ct: "extra (ns ! i) ''used_cpu_time'' = Some (PyInt used_cpu_time)" ..
  from m2 m3 m3' strs' vc ct keys show ?thesis
    by (intro conjI)
qed

text \<open>
  The second sample domain reports 1000 as its memory: 0 under Python 2 and 125/128
  under Python 3.
\<close>

theorem list_nodes_extra_used_memory_witness:
  "listAllDomains (connection sample_driver) = Inr [vm_web, vm_db] \<and>
   snd (list_nodes Python2 sample_driver) = Inr [node_web Python2, node_db Python2] \<and>
   snd (list_nodes Python3 sample_driver) = Inr [node_web Python3, node_db Python3] \<and>
   (1::nat) < length [vm_web, vm_db] \<and>
   info ([vm_web, vm_db] ! 1) = Inr (5, 1048576, 1000, 1, 0) \<and>
   extra (node_db Python2) ''used_memory'' = Some (PyInt 0) \<and>
   extra (node_db Python3) ''used_memory'' = Some (PyFloat (125 / 128)) \<and>
   extra (node_db Python2) ''vcpu_count'' = Some (PyInt 1) \<and>
   extra (node_db Python2) ''used_cpu_time'' = Some (PyInt 0)"
proof -
  have i: "(1::nat) < length [vm_web, vm_db]"
    by simp
  have inf: "info ([vm_web, vm_db] ! 1) = Inr (5, 1048576, 1000, 1, 0)"
    by (simp add: vm_db_def)
  from list_nodes_extra_used_memory
    [OF sample_listAllDomains list_nodes_sample [of Python2] i inf]
  have p2: "extra (node_db Python2) ''used_memory'' = Some (PyInt 0) \<and>
      extra (node_db Python2) ''vcpu_count'' = Some (PyInt 1) \<and>
      extra (node_db Python2) ''used_cpu_time'' = Some (PyInt 0)"
    by simp
  from list_nodes_extra_used_memory
    [OF sample_listAllDomains list_nodes_sample [of Python3] i inf]
  have p3: "extra (node_db Python3) ''used_memory'' = Some (PyFloat (125 / 128))"
    by (simp add: round_to_53_bits_small)
  from sample_listAllDomains list_nodes_sample [of Python2] list_nodes_sample [of Python3]
    i inf p2 p3
  show ?thesis
    by simp
qed

text \<open>
  C7. If a call that the listing makes for some reported domain raises, \<open>list_nodes\<close>
  returns no list: it stops at the first domain whose processing raises, makes no call
  for the domains after it, and lets that domain's exception through as it is.
\<close>

theorem list_nodes_aborts_on_exception:
  assumes "listAllDomains (connection self) = Inr ds"
    and "d \<in> set ds"
    and "info d = Inl e \<or> UUIDString d = Inl e \<or> OSType d = Inl e \<or>
         getType (connection self) = Inl e \<or> ID d = Inl e \<or> name d = Inl e"
  shows "\<exists>pre d' post e'.
           ds = pre @ d' # post \<and>
           (\<forall>p\<in>set pre. \<exists>n. snd (node_for_domain py self p) = Inr n) \<and>
           snd (node_for_domain py self d') = Inl e' \<and>
           (info d' = Inl e' \<or> UUIDString d' = Inl e' \<or> OSType d' = Inl e' \<or>
            getType (connection self) = Inl e' \<or> ID d' = Inl e' \<or> name d' = Inl e' \<or>
            (py = Python3 \<and> e' = OverflowError)) \<and>
           list_nodes py self =
             (conn_listAllDomains #
                concat (map (\<lambda>p. fst (node_for_domain py self p)) (pre @ [d'])),
              Inl e')"
proof -
  from native_failure_raises [OF assms(3), of py]
  have "isl (snd (node_for_domain py self d))"
    by (auto simp: isl_def)
  with assms(2) have "\<exists>d\<in>set ds. isl (snd (node_for_domain py self d))" ..
  from split_list_first_prop [OF this]
  obtain pre d' post where split: "ds = pre @ d' # post"
    and d': "isl (snd (node_for_domain py self d'))"
    and pre: "\<forall>p\<in>set pre. \<not> isl (snd (node_for_domain py self p))"
    by blast
  from d' obtain e' where e': "snd (node_for_domain py self d') = Inl e'"
    by (auto simp: isl_def)
  from pre have ok: "\<forall>p\<in>set pre. \<exists>n. snd (node_for_domain py self p) = Inr n"
    by (simp add: not_isl_iff)
  have "list_nodes py self =
      (conn_listAllDomains #
         concat (map (\<lambda>p. fst (node_for_domain py self p)) (pre @ [d'])), Inl e')"
    using assms(1) list_nodes_loop_raises_at [OF ok e', of post "[]"]
    by (simp add: list_nodes_def native_def split)
  with split ok e' node_for_domain_raised_by [OF e'] show ?thesis
    by blast
qed

text \<open>
  A connection that reports a domain which is gone by the time its \<open>info\<close> is asked
  for: the listing ends with that call's exception, after the calls for the first
  domain and the failed \<open>info\<close>, although the first and third domains answer.
\<close>

theorem list_nodes_aborts_on_exception_witness:
  "listAllDomains (connection racy_driver) = Inr [vm_web, vm_gone, vm_db] \<and>
   vm_gone \<in> set [vm_web, vm_gone, vm_db] \<and>
   info vm_gone = Inl (libvirtError ''Domain not found'') \<and>
   (\<exists>e'. snd (list_nodes Python2 racy_driver) = Inl e') \<and>
   list_nodes Python2 racy_driver =
     ([conn_listAllDomains, domain_info vm_web, domain_UUIDString vm_web,
       domain_OSType vm_web, conn_getType, domain_ID vm_web, domain_name vm_web,
       domain_UUIDString vm_web, domain_info vm_gone],
      Inl (libvirtError ''Domain not found''))"
proof -
  have doms: "listAllDomains (connection racy_driver) = Inr [vm_web, vm_gone, vm_db]"
    by (simp add: racy_driver_def racy_connection_def)
  have mem: "vm_gone \<in> set [vm_web, vm_gone, vm_db]"
    by simp
  have inf: "info vm_gone = Inl (libvirtError ''Domain not found'')"
    by (simp add: vm_gone_def)
  then have fails: "info vm_gone = Inl (libvirtError ''Domain not found'') \<or>
      UUIDString vm_gone = Inl (libvirtError ''Domain not found'') \<or>
      OSType vm_gone = Inl (libvirtError ''Domain not found'') \<or>
      getType (connection racy_driver) = Inl (libvirtError ''Domain not found'') \<or>
      ID vm_gone = Inl (libvirtError ''Domain not found'') \<or>
      name vm_gone = Inl (libvirtError ''Domain not found'')" ..
  from list_nodes_aborts_on_exception [OF doms mem fails, of Python2]
  have raises: "\<exists>e'. snd (list_nodes Python2 racy_driver) = Inl e'"
    by auto
  have run: "list_nodes Python2 racy_driver =
     ([conn_listAllDomains, domain_info vm_web, domain_UUIDString vm_web,
       domain_OSType vm_web, conn_getType, domain_ID vm_web, domain_name vm_web,
       domain_UUIDString vm_web, domain_info vm_gone],
      Inl (libvirtError ''Domain not found''))"
    by (simp add: list_nodes_def node_for_domain_def racy_driver_def racy_connection_def
        native_def lift_io_def return_io_def vm_web_def vm_gone_def)
  from doms mem inf raises run show ?thesis
    by (intro conjI)
qed

text \<open>
  C8. When the connection reports exactly two domains, which answer and whose info
  tuples carry the state codes 1 and 5, \<open>list_nodes\<close> returns exactly two nodes, the
  first RUNNING and the second TERMINATED. And every node that \<open>list_nodes\<close> ever
  returns has empty \<open>public_ips\<close> and \<open>private_ips\<close>.
\<close>

theorem list_nodes_two_domains:
  assumes "listAllDomains (connection self) = Inr [d1, d2]"
    and "answers py (connection self) d1"
    and "answers py (connection self) d2"
    and "info d1 = Inr (1, max_mem1, memory1, vcpu_count1, used_cpu_time1)"
    and "info d2 = Inr (5, max_mem2, memory2, vcpu_count2, used_cpu_time2)"
  shows "(\<exists>n1 n2. snd (list_nodes py self) = Inr [n1, n2] \<and>
            node_state n1 = RUNNING \<and> node_state n2 = TERMINATED \<and>
            public_ips n1 = [] \<and> private_ips n1 = [] \<and>
            public_ips n2 = [] \<and> private_ips n2 = []) \<and>
         (\<forall>py' self' ns. snd (list_nodes py' self') = Inr ns \<longrightarrow>
            (\<forall>n\<in>set ns. public_ips n = [] \<and> private_ips n = []))"
proof -
  have ips: "public_ips n = [] \<and> private_ips n = []"
    if "snd (list_nodes py' self') = Inr ns" "n \<in> set ns" for py' self' ns n
  proof -
    from that(1) obtain ds' where
      "list_all2 (\<lambda>d n. snd (node_for_domain py' self' d) = Inr n) ds' ns"
      by (auto simp: list_nodes_returns_iff)
    with that(2) obtain d' where "snd (node_for_domain py' self' d') = Inr n"
      by (auto simp: list_all2_conv_all_nth in_set_conv_nth)
    then show ?thesis
      by (auto simp: node_for_domain_returns_iff)
  qed
  from assms(2) obtain n1 where n1: "snd (node_for_domain py self d1) = Inr n1"
    by (auto simp: answers_iff_returns)
  from assms(3) obtain n2 where n2: "snd (node_for_domain py self d2) = Inr n2"
    by (auto simp: answers_iff_returns)
  from n1 n2 assms(1) have ret: "snd (list_nodes py self) = Inr [n1, n2]"
    by (simp add: list_nodes_returns_iff)
  from n1 assms(4) have s1: "node_state n1 = RUNNING"
    by (auto simp: node_for_domain_returns_iff map_state_def NODE_STATE_MAP_def)
  from n2 assms(5) have s2: "node_state n2 = TERMINATED"
    by (auto simp: node_for_domain_returns_iff map_state_def NODE_STATE_MAP_def)
  from ret s1 s2 ips [OF ret] ips show ?thesis
    by (intro conjI exI [of _ n1] exI [of _ n2] allI impI ballI) simp_all
qed

text \<open>The sample connection is such a connection.\<close>

theorem list_nodes_two_domains_witness:
  "listAllDomains (connection sample_driver) = Inr [vm_web, vm_db] \<and>
   answers Python2 (connection sample_driver) vm_web \<and>
   answers Python2 (connection sample_driver) vm_db \<and>
   info vm_web = Inr (1, 4194304, 2097152, 2, 7000000000) \<and>
   info vm_db = Inr (5, 1048576, 1000, 1, 0) \<and>
   snd (list_nodes Python2 sample_driver) = Inr [node_web Python2, node_db Python2] \<and>
   node_state (node_web Python2) = RUNNING \<and> node_state (node_db Python2) = TERMINATED \<and>
   public_ips (node_web Python2) = [] \<and> private_ips (node_web Python2) = [] \<and>
   public_ips (node_db Python2) = [] \<and> private_ips (node_db Python2) = []"
proof -
  have i1: "info vm_web = Inr (1, 4194304, 2097152, 2, 7000000000)"
    by (simp add: vm_web_def)
  have i2: "info vm_db = Inr (5, 1048576, 1000, 1, 0)"
    by (simp add: vm_db_def)
  from list_nodes_two_domains
    [OF sample_listAllDomains sample_answers(1) [of Python2] sample_answers(2) [of Python2] i1 i2]
  obtain n1 n2 where "snd (list_nodes Python2 sample_driver) = Inr [n1, n2]"
    and props: "node_state n1 = RUNNING \<and> node_state n2 = TERMINATED \<and>
      public_ips n1 = [] \<and> private_ips n1 = [] \<and> public_ips n2 = [] \<and> private_ips n2 = []"
    by blast
  then have "n1 = node_web Python2" and "n2 = node_db Python2"
    by (simp_all add: list_nodes_sample)
  with props have "node_state (node_web Python2) = RUNNING \<and>
      node_state (node_db Python2) = TERMINATED \<and>
      public_ips (node_web Python2) = [] \<and> private_ips (node_web Python2) = [] \<and>
      public_ips (node_db Python2) = [] \<and> private_ips (node_db Python2) = []"
    by simp
  with sample_listAllDomains sample_answers(1) [of Python2] sample_answers(2) [of Python2]
    i1 i2 list_nodes_sample [of Python2]
  show ?thesis
    by blast
qed

end
